theory Spec2Isabelle
  imports Main "HOL-Library.AList" "HOL-Library.Sublist"
begin

section \<open>Quarantine violation alerting: the two backends\<close>

text \<open>
  The development embeds \<^verbatim>\<open>backend.py\<close>: the application backend (\<^verbatim>\<open>AppBackend\<close>), which
  keeps one record per registered phone and refreshes its datetime from decrypted beacon
  tokens, and the authority backend (\<^verbatim>\<open>AuthorityBackend\<close>), which keeps the list of
  violation datetimes of every beacon.

  Conventions.
  \<^item> A Python \<^verbatim>\<open>str\<close> is a \<open>string\<close>; a \<^verbatim>\<open>dict\<close> is an association list in insertion
    order, read with \<open>map_of\<close> and written with \<open>AList.update\<close> (an existing key keeps
    its position, a new key goes to the end).
  \<^item> A \<^verbatim>\<open>datetime\<close> is its number of microseconds since \<^verbatim>\<open>datetime.min\<close>, an \<open>int\<close>
    from \<open>0\<close> to \<open>datetime_max\<close>; a \<^verbatim>\<open>timedelta\<close> is a number of microseconds. Building
    a \<^verbatim>\<open>timedelta\<close> and adding it to a \<^verbatim>\<open>datetime\<close> raise OverflowError outside their
    ranges, as in Python.
  \<^item> What the code takes from libraries is a parameter, collected in the record \<open>lib\<close>:
    the successive readings of \<^verbatim>\<open>datetime.utcnow()\<close>, \<^verbatim>\<open>strftime\<close> and \<^verbatim>\<open>strptime\<close> for the
    database format, and Fernet decryption.
  \<^item> An exception is a value: a handler returns \<open>Inr w\<close> with the new world, or
    \<open>Inl (e, w)\<close> when exception \<open>e\<close> left it, \<open>w\<close> being the world at that moment.
  \<^item> Sockets, TLS handshakes and files are taken to work: a write to a file sets the
    file's contents, a write to the authority's socket appends to \<open>outbox\<close>. Output on
    \<^verbatim>\<open>stdout\<close> is left out.
\<close>

subsection \<open>Constants of \<^verbatim>\<open>backend.py\<close>\<close>

definition separator :: char where
  "separator = CHR '',''"

definition app_header :: string where
  "app_header = ''App''"

definition health_authority_header :: string where
  "health_authority_header = ''HealthAuthority''"

definition smartphone_header :: string where
  "smartphone_header = ''Smartphone''"

subsection \<open>Strings and lists as Python has them\<close>

text \<open>\<^verbatim>\<open>s.split(sep)\<close> for a one-character separator: always at least one field.\<close>

fun str_split :: "char \<Rightarrow> string \<Rightarrow> string list" where
  "str_split sep [] = [[]]"
| "str_split sep (c # cs) =
     (if c = sep then [] # str_split sep cs
      else (case str_split sep cs of
              [] \<Rightarrow> [[c]]
            | field # fields \<Rightarrow> (c # field) # fields))"

text \<open>\<^verbatim>\<open>sep.join(fields)\<close>.\<close>

fun str_join :: "char \<Rightarrow> string list \<Rightarrow> string" where
  "str_join sep [] = []"
| "str_join sep [field] = field"
| "str_join sep (field # fields) = field @ sep # str_join sep fields"

text \<open>\<^verbatim>\<open>data[i]\<close> for a literal index: \<open>None\<close> stands for IndexError.\<close>

definition item :: "'a list \<Rightarrow> nat \<Rightarrow> 'a option" where
  "item data i = (if i < length data then Some (data ! i) else None)"

subsection \<open>Library interface\<close>

datatype error = KeyError | IndexError | ValueError | UnicodeDecodeError | OverflowError

text \<open>
  The four ways \<^verbatim>\<open>Fernet(key).decrypt(str.encode(ciphertext)).decode()\<close> can end: the
  constructor rejects the key (ValueError), the token fails authentication
  (\<^verbatim>\<open>InvalidToken\<close>), the plaintext is not UTF-8, or a string comes out.
\<close>

datatype fernet_outcome = BadKey | InvalidToken | NotText | Plaintext string

record lib =
  clock :: "nat \<Rightarrow> int"
  strftime :: "int \<Rightarrow> string"
  strptime :: "string \<Rightarrow> int option"
  fernet_decrypt :: "string \<Rightarrow> string \<Rightarrow> fernet_outcome"

subsection \<open>State\<close>

text \<open>One entry of \<^verbatim>\<open>AppBackend._database\<close>: the list \<^verbatim>\<open>[id_beacon, key, datetime]\<close>.\<close>

record subject =
  s_beacon :: string
  s_key :: string
  s_datetime :: string

text \<open>
  The demo runs both backends in one process, with one execution log. \<open>reads\<close> counts
  the calls of \<^verbatim>\<open>utcnow\<close> made so far; a file that does not exist yet is \<open>None\<close>.
\<close>

record world =
  app_database :: "(string \<times> subject) list"
  app_database_file :: "(string \<times> subject) list option"
  auth_database :: "(string \<times> string) list"
  auth_database_file :: "(string \<times> string) list option"
  auth_log :: "(string \<times> string list) list"
  auth_log_file :: "(string \<times> string list) list option"
  execution_log :: "(string \<times> string list) list"
  outbox :: "string list"
  reads :: nat

type_synonym outcome = "(error \<times> world) + world"

definition world_of :: "outcome \<Rightarrow> world" where
  "world_of r = (case r of Inl (e, w) \<Rightarrow> w | Inr w \<Rightarrow> w)"

subsection \<open>\<^verbatim>\<open>utils.py\<close>\<close>

definition utcnow :: "lib \<Rightarrow> world \<Rightarrow> int \<times> world" where
  "utcnow L w = (clock L (reads w), w\<lparr>reads := Suc (reads w)\<rparr>)"

definition update_execution_log :: "lib \<Rightarrow> string list \<Rightarrow> world \<Rightarrow> world" where
  "update_execution_log L data w =
     (let (now, w1) = utcnow L w
      in w1\<lparr>execution_log := execution_log w1 @ [(strftime L now, data)]\<rparr>)"

subsection \<open>\<^verbatim>\<open>AppBackend\<close>\<close>

definition add_phone :: "lib \<Rightarrow> string \<Rightarrow> string \<Rightarrow> string \<Rightarrow> world \<Rightarrow> world" where
  "add_phone L id_phone id_beacon key w =
     (let w1 = update_execution_log L [''New Patient'', id_phone, id_beacon, key] w;
          (now, w2) = utcnow L w1;
          db = AList.update id_phone
                 \<lparr>s_beacon = id_beacon, s_key = key, s_datetime = strftime L now\<rparr>
                 (app_database w2)
      in w2\<lparr>app_database := db, app_database_file := Some db\<rparr>)"

definition get_key :: "lib \<Rightarrow> string \<Rightarrow> world \<Rightarrow> string option \<times> world" where
  "get_key L id_phone w =
     (case map_of (app_database w) id_phone of
        Some sub \<Rightarrow> (Some (s_key sub), w)
      | None \<Rightarrow> (None, update_execution_log L [''Invalid Phone'', id_phone] w))"

definition decrypt_token :: "lib \<Rightarrow> string \<Rightarrow> string \<Rightarrow> world \<Rightarrow> outcome" where
  "decrypt_token L id_phone ciphertext w =
     (let w1 = update_execution_log L [''New Token'', id_phone, ciphertext] w;
          (key, w2) = get_key L id_phone w1
      in case key of
           None \<Rightarrow> Inr w2
         | Some k \<Rightarrow>
             (case fernet_decrypt L k ciphertext of
                BadKey \<Rightarrow> Inl (ValueError, w2)
              | InvalidToken \<Rightarrow>
                  Inr (update_execution_log L [''Invalid Token'', id_phone, ciphertext] w2)
              | NotText \<Rightarrow> Inl (UnicodeDecodeError, w2)
              | Plaintext new_datetime_string \<Rightarrow>
                  (case strptime L new_datetime_string of
                     None \<Rightarrow> Inl (ValueError, w2)
                   | Some new_datetime \<Rightarrow>
                       (case map_of (app_database w2) id_phone of
                          None \<Rightarrow> Inl (KeyError, w2)
                        | Some sub \<Rightarrow>
                            (case strptime L (s_datetime sub) of
                               None \<Rightarrow> Inl (ValueError, w2)
                             | Some database_datetime \<Rightarrow>
                                 if new_datetime > database_datetime then
                                   (let db = AList.update id_phone
                                               (sub\<lparr>s_datetime := new_datetime_string\<rparr>)
                                               (app_database w2)
                                    in Inr (w2\<lparr>app_database := db,
                                               app_database_file := Some db\<rparr>))
                                 else Inr w2)))))"

text \<open>\<^verbatim>\<open>AppBackend._client_session\<close>: one message written to the authority's socket.\<close>

definition client_session :: "string \<Rightarrow> world \<Rightarrow> world" where
  "client_session data w = w\<lparr>outbox := outbox w @ [data]\<rparr>"

text \<open>
  \<^verbatim>\<open>datetime.max\<close>, 9999-12-31 23:59:59.999999, in microseconds since \<^verbatim>\<open>datetime.min\<close>,
  0001-01-01 00:00:00: 3652059 days less one microsecond.
\<close>

definition datetime_max :: int where
  "datetime_max = 315537897599999999"

text \<open>
  \<^verbatim>\<open>timedelta(seconds=n)\<close> for an integer \<open>n\<close>: OverflowError, here \<open>None\<close>, when the
  number of whole days is beyond 999999999 in magnitude.
\<close>

definition timedelta_seconds :: "int \<Rightarrow> int option" where
  "timedelta_seconds n =
     (if - 999999999 \<le> n div 86400 \<and> n div 86400 \<le> 999999999
      then Some (n * 1000000) else None)"

text \<open>\<^verbatim>\<open>datetime + timedelta\<close>: OverflowError, here \<open>None\<close>, when the sum is not a datetime.\<close>

definition datetime_add :: "int \<Rightarrow> int \<Rightarrow> int option" where
  "datetime_add t delta =
     (if 0 \<le> t + delta \<and> t + delta \<le> datetime_max then Some (t + delta) else None)"

text \<open>
  The expression \<^verbatim>\<open>dt.strptime(self._database[id_phone][2], database_dt_format) +
  td(seconds=td_expire)\<close> of \<^verbatim>\<open>control_routine\<close>, evaluated from left to right.
\<close>

definition expire_dt :: "lib \<Rightarrow> int \<Rightarrow> subject \<Rightarrow> error + int" where
  "expire_dt L td_expire sub =
     (case strptime L (s_datetime sub) of
        None \<Rightarrow> Inl ValueError
      | Some database_datetime \<Rightarrow>
          (case timedelta_seconds td_expire of
             None \<Rightarrow> Inl OverflowError
           | Some delta \<Rightarrow>
               (case datetime_add database_datetime delta of
                  None \<Rightarrow> Inl OverflowError
                | Some expire \<Rightarrow> Inr expire)))"

text \<open>
  The loop of \<^verbatim>\<open>control_routine\<close> over the entries of the database; \<open>td_expire\<close> is in
  seconds. The body does not change the database, so the loop runs over the entries
  the routine started with.
\<close>

fun control_loop :: "lib \<Rightarrow> int \<Rightarrow> (string \<times> subject) list \<Rightarrow> world \<Rightarrow> outcome" where
  "control_loop L td_expire [] w = Inr w"
| "control_loop L td_expire ((id_phone, sub) # rest) w =
     (case expire_dt L td_expire sub of
        Inl raised \<Rightarrow> Inl (raised, w)
      | Inr expire \<Rightarrow>
          (let (now, w1) = utcnow L w
           in if now > expire then
                control_loop L td_expire rest
                  (client_session (str_join separator [app_header, s_beacon sub])
                     (update_execution_log L [app_header, s_beacon sub] w1))
              else control_loop L td_expire rest w1))"

definition control_routine :: "lib \<Rightarrow> int \<Rightarrow> world \<Rightarrow> outcome" where
  "control_routine L td_expire w = control_loop L td_expire (app_database w) w"

text \<open>
  The body of the accept loop of \<^verbatim>\<open>AppBackend.server_session\<close> for one decoded message:
  two \<^verbatim>\<open>if\<close> statements in a row, the arguments of each call read from \<open>data\<close> from
  left to right before the call.
\<close>

definition app_dispatch :: "lib \<Rightarrow> string \<Rightarrow> world \<Rightarrow> outcome" where
  "app_dispatch L message w =
     (let data = str_split separator message
      in case item data 0 of
           None \<Rightarrow> Inl (IndexError, w)
         | Some tag \<Rightarrow>
             (case (if tag = health_authority_header then
                      (case item data 1 of
                         None \<Rightarrow> Inl (IndexError, w)
                       | Some id_phone \<Rightarrow>
                           (case item data 2 of
                              None \<Rightarrow> Inl (IndexError, w)
                            | Some id_beacon \<Rightarrow>
                                (case item data 3 of
                                   None \<Rightarrow> Inl (IndexError, w)
                                 | Some key \<Rightarrow> Inr (add_phone L id_phone id_beacon key w))))
                    else Inr w) of
                Inl raised \<Rightarrow> Inl raised
              | Inr w1 \<Rightarrow>
                  if tag = smartphone_header then
                    (case item data 1 of
                       None \<Rightarrow> Inl (IndexError, w1)
                     | Some id_phone \<Rightarrow>
                         (case item data 2 of
                            None \<Rightarrow> Inl (IndexError, w1)
                          | Some ciphertext \<Rightarrow> decrypt_token L id_phone ciphertext w1))
                  else Inr w1))"

text \<open>
  The accept loop over the messages that arrive, in order. \<open>Inr w\<close>: every message was
  handled and the loop waits in \<^verbatim>\<open>accept\<close>; \<open>Inl (e, w)\<close>: exception \<open>e\<close> ended the loop,
  the messages after it are never read.
\<close>

fun app_server_session :: "lib \<Rightarrow> string list \<Rightarrow> world \<Rightarrow> outcome" where
  "app_server_session L [] w = Inr w"
| "app_server_session L (message # messages) w =
     (case app_dispatch L message w of
        Inl raised \<Rightarrow> Inl raised
      | Inr w1 \<Rightarrow> app_server_session L messages w1)"

subsection \<open>\<^verbatim>\<open>AuthorityBackend\<close>\<close>

text \<open>
  The first statement of \<^verbatim>\<open>_add_datetime\<close> reads \<^verbatim>\<open>self._database[id_beacon]\<close> as an
  argument of \<^verbatim>\<open>update_execution_log\<close>, before the membership test that follows.
\<close>

definition add_datetime :: "lib \<Rightarrow> string \<Rightarrow> world \<Rightarrow> outcome" where
  "add_datetime L id_beacon w =
     (case map_of (auth_database w) id_beacon of
        None \<Rightarrow> Inl (KeyError, w)
      | Some info \<Rightarrow>
          (let w1 = update_execution_log L [''Quarantine Violation'', id_beacon, info] w
           in if map_of (auth_database w1) id_beacon \<noteq> None then
                (let (now, w2) = utcnow L w1;
                     lg = (case map_of (auth_log w2) id_beacon of
                             None \<Rightarrow> AList.update id_beacon [strftime L now] (auth_log w2)
                           | Some datetimes \<Rightarrow>
                               AList.update id_beacon (datetimes @ [strftime L now])
                                 (auth_log w2))
                 in Inr (w2\<lparr>auth_log := lg, auth_log_file := Some lg\<rparr>))
              else Inr (update_execution_log L [''Invalid Beacon'', id_beacon] w1)))"

definition add_beacon :: "lib \<Rightarrow> string \<Rightarrow> string \<Rightarrow> world \<Rightarrow> world" where
  "add_beacon L id_beacon info w =
     (let w1 = update_execution_log L [''New Beacon'', id_beacon, info] w;
          db = AList.update id_beacon info (auth_database w1)
      in w1\<lparr>auth_database := db, auth_database_file := Some db\<rparr>)"

definition authority_dispatch :: "lib \<Rightarrow> string \<Rightarrow> world \<Rightarrow> outcome" where
  "authority_dispatch L message w =
     (let data = str_split separator message
      in case item data 0 of
           None \<Rightarrow> Inl (IndexError, w)
         | Some tag \<Rightarrow>
             if tag = app_header then
               (case item data 1 of
                  None \<Rightarrow> Inl (IndexError, w)
                | Some id_beacon \<Rightarrow> add_datetime L id_beacon w)
             else Inr w)"

fun authority_server_session :: "lib \<Rightarrow> string list \<Rightarrow> world \<Rightarrow> outcome" where
  "authority_server_session L [] w = Inr w"
| "authority_server_session L (message # messages) w =
     (case authority_dispatch L message w of
        Inl raised \<Rightarrow> Inl raised
      | Inr w1 \<Rightarrow> authority_server_session L messages w1)"

subsection \<open>Sequences of calls\<close>

text \<open>
  A sequence of \<^verbatim>\<open>_decrypt_token\<close> calls, each a phone and a ciphertext, in the order
  they are delivered. A call that ends in an exception leaves the world it had reached.
\<close>

fun observe_all :: "lib \<Rightarrow> (string \<times> string) list \<Rightarrow> world \<Rightarrow> world" where
  "observe_all L [] w = w"
| "observe_all L ((id_phone, ciphertext) # calls) w =
     observe_all L calls (world_of (decrypt_token L id_phone ciphertext w))"

text \<open>A sequence of \<^verbatim>\<open>_add_datetime\<close> calls, one beacon each.\<close>

fun record_all :: "lib \<Rightarrow> string list \<Rightarrow> world \<Rightarrow> world" where
  "record_all L [] w = w"
| "record_all L (id_beacon # calls) w =
     record_all L calls (world_of (add_datetime L id_beacon w))"

text \<open>The violation datetimes of a beacon in \<^verbatim>\<open>AuthorityBackend._log\<close>; none before its first.\<close>

definition violations :: "world \<Rightarrow> string \<Rightarrow> string list" where
  "violations w id_beacon =
     (case map_of (auth_log w) id_beacon of None \<Rightarrow> [] | Some datetimes \<Rightarrow> datetimes)"

text \<open>Every datetime stored in the application database is in the database format.\<close>

definition datetimes_parse :: "lib \<Rightarrow> (string \<times> subject) list \<Rightarrow> bool" where
  "datetimes_parse L db = list_all (\<lambda>(id_phone, sub). strptime L (s_datetime sub) \<noteq> None) db"

text \<open>
  For every entry, the expiry datetime that \<^verbatim>\<open>control_routine\<close> computes exists: the stored
  datetime parses and adding the tolerance to it stays within the datetime range.
\<close>

definition expiries_in_range :: "lib \<Rightarrow> int \<Rightarrow> (string \<times> subject) list \<Rightarrow> bool" where
  "expiries_in_range L td_expire db =
     list_all (\<lambda>(id_phone, sub).
                 case expire_dt L td_expire sub of Inl raised \<Rightarrow> False | Inr expire \<Rightarrow> True) db"

subsection \<open>The arguments of \<^verbatim>\<open>ssl.wrap_socket\<close>\<close>

datatype cert_reqs = CERT_NONE | CERT_OPTIONAL | CERT_REQUIRED

datatype protocol = PROTOCOL_TLS | PROTOCOL_TLSv1_2 | PROTOCOL_TLS_SERVER

record wrap_socket_args =
  keyfile :: "string option"
  certfile :: "string option"
  server_side :: bool
  cert_reqs :: cert_reqs
  ssl_version :: protocol
  ca_certs :: "string option"
  ciphers_arg :: "string option"

text \<open>The defaults of the keyword arguments, from the signature of \<^verbatim>\<open>ssl.wrap_socket\<close>.\<close>

definition wrap_socket_defaults :: wrap_socket_args where
  "wrap_socket_defaults =
     \<lparr>keyfile = None, certfile = None, server_side = False, cert_reqs = CERT_NONE,
      ssl_version = PROTOCOL_TLS, ca_certs = None, ciphers_arg = None\<rparr>"

definition ciphers :: string where
  "ciphers =
     ''ECDHE-RSA-AES256-GCM-SHA384:ECDHE-RSA-AES128-GCM-SHA256:TLS_CHACHA20_POLY1305_SHA256''"

text \<open>The paths a \<^verbatim>\<open>Backend\<close> object holds.\<close>

record backend_paths =
  key_path :: string
  certificate_path :: string
  ca_certificate_path :: string

text \<open>\<^verbatim>\<open>AppBackend.server_session\<close>: no \<^verbatim>\<open>cert_reqs\<close> and no \<^verbatim>\<open>ca_certs\<close> are passed.\<close>

definition app_server_wrap_socket :: "backend_paths \<Rightarrow> wrap_socket_args" where
  "app_server_wrap_socket self =
     wrap_socket_defaults
       \<lparr>keyfile := Some (key_path self),
        certfile := Some (certificate_path self),
        server_side := True,
        ssl_version := PROTOCOL_TLS_SERVER,
        ciphers_arg := Some ciphers\<rparr>"

text \<open>\<^verbatim>\<open>Client._client_session\<close>, of \<^verbatim>\<open>HealthAuthority\<close> and \<^verbatim>\<open>SmartPhone\<close>: the argument is
  the client's \<^verbatim>\<open>_ca_certificate_path\<close>; no key file and no certificate file are passed.\<close>

definition client_wrap_socket :: "string \<Rightarrow> wrap_socket_args" where
  "client_wrap_socket client_ca_certificate_path =
     wrap_socket_defaults
       \<lparr>cert_reqs := CERT_REQUIRED,
        ssl_version := PROTOCOL_TLSv1_2,
        ca_certs := Some client_ca_certificate_path,
        ciphers_arg := Some ciphers\<rparr>"

text \<open>\<^verbatim>\<open>AuthorityBackend.server_session\<close>.\<close>

definition authority_server_wrap_socket :: "backend_paths \<Rightarrow> wrap_socket_args" where
  "authority_server_wrap_socket self =
     wrap_socket_defaults
       \<lparr>keyfile := Some (key_path self),
        certfile := Some (certificate_path self),
        server_side := True,
        cert_reqs := CERT_REQUIRED,
        ssl_version := PROTOCOL_TLS_SERVER,
        ca_certs := Some (ca_certificate_path self),
        ciphers_arg := Some ciphers\<rparr>"

text \<open>\<^verbatim>\<open>AppBackend._client_session\<close>, towards the authority.\<close>

definition app_client_wrap_socket :: "backend_paths \<Rightarrow> wrap_socket_args" where
  "app_client_wrap_socket self =
     wrap_socket_defaults
       \<lparr>keyfile := Some (key_path self),
        certfile := Some (certificate_path self),
        cert_reqs := CERT_REQUIRED,
        ssl_version := PROTOCOL_TLSv1_2,
        ca_certs := Some (ca_certificate_path self),
        ciphers_arg := Some ciphers\<rparr>"

text \<open>
  What the arguments mean for a handshake. An endpoint presents a certificate when it
  was given a certificate file and its key; it requires and validates the certificate
  of its peer when \<^verbatim>\<open>cert_reqs\<close> is \<^verbatim>\<open>CERT_REQUIRED\<close> and it was given the trusted
  certificates to validate against.
\<close>

definition presents_certificate :: "wrap_socket_args \<Rightarrow> bool" where
  "presents_certificate args = (certfile args \<noteq> None \<and> keyfile args \<noteq> None)"

definition validates_peer :: "wrap_socket_args \<Rightarrow> bool" where
  "validates_peer args = (cert_reqs args = CERT_REQUIRED \<and> ca_certs args \<noteq> None)"

definition mutually_authenticated :: "wrap_socket_args \<Rightarrow> wrap_socket_args \<Rightarrow> bool" where
  "mutually_authenticated server client =
     (server_side server \<and> \<not> server_side client \<and>
      presents_certificate server \<and> validates_peer client \<and>
      validates_peer server \<and> presents_certificate client)"

definition server_authenticated_only :: "wrap_socket_args \<Rightarrow> wrap_socket_args \<Rightarrow> bool" where
  "server_authenticated_only server client =
     (server_side server \<and> \<not> server_side client \<and>
      presents_certificate server \<and> validates_peer client \<and>
      cert_reqs server = CERT_NONE \<and> ca_certs server = None \<and>
      \<not> presents_certificate client)"

subsection \<open>A small instance to run the model on\<close>

text \<open>
  A library to evaluate with: the clock advances one second per reading, a datetime is
  written as one \<open>s\<close> per second, and a token is the key followed by the plaintext.
\<close>

definition demo_lib :: lib where
  "demo_lib =
     \<lparr>clock = (\<lambda>n. int n * 1000000),
      strftime = (\<lambda>t. replicate (nat (t div 1000000)) (CHR ''s'')),
      strptime = (\<lambda>s. if list_all (\<lambda>c. c = CHR ''s'') s
                       then Some (int (length s) * 1000000) else None),
      fernet_decrypt =
        (\<lambda>k c. if k = [] then BadKey
               else if take (length k) c = k then Plaintext (drop (length k) c)
               else InvalidToken)\<rparr>"

text \<open>Both backends freshly started, with no files on disk.\<close>

definition fresh_world :: world where
  "fresh_world =
     \<lparr>app_database = [], app_database_file = None,
      auth_database = [], auth_database_file = None,
      auth_log = [], auth_log_file = None,
      execution_log = [], outbox = [], reads = 0\<rparr>"

text \<open>The application backend's paths under the root of \<^verbatim>\<open>main.py\<close>.\<close>

definition app_paths :: backend_paths where
  "app_paths =
     \<lparr>key_path = ''./app/key.pem'', certificate_path = ''./app/certificate.pem'',
      ca_certificate_path = ''./app/ca_certificate.pem''\<rparr>"

text \<open>The authority after \<^verbatim>\<open>add_beacon\<close> for the first beacon of \<^verbatim>\<open>main.py\<close>.\<close>

definition authority_world :: world where
  "authority_world = add_beacon demo_lib ''beacon_01'' ''info_beacon_01'' fresh_world"

text \<open>The application backend after the registration of its first phone.\<close>

definition registered_world :: world where
  "registered_world = add_phone demo_lib ''skt_01'' ''beacon_01'' ''key_01'' fresh_world"

text \<open>
  Two phones under watch at the fifth clock reading: one last seen at second 1, the
  other at second 4.
\<close>

definition watched_world :: world where
  "watched_world =
     \<lparr>app_database =
        [(''skt_01'', \<lparr>s_beacon = ''beacon_01'', s_key = ''key_01'', s_datetime = ''s''\<rparr>),
         (''skt_03'', \<lparr>s_beacon = ''beacon_02'', s_key = ''key_03'', s_datetime = ''ssss''\<rparr>)],
      app_database_file = None,
      auth_database = [], auth_database_file = None, auth_log = [], auth_log_file = None,
      execution_log = [], outbox = [], reads = 5\<rparr>"

text \<open>
  The same library, whose \<^verbatim>\<open>strptime\<close> also reads the last datetime there is.
\<close>

definition far_lib :: lib where
  "far_lib =
     demo_lib
       \<lparr>strptime :=
          (\<lambda>s. if s = ''9999-12-31 23:59:59.999999'' then Some datetime_max
               else strptime demo_lib s)\<rparr>"

text \<open>
  Two phones are registered, then the first relays a token of its beacon that carries
  the last datetime there is.
\<close>

definition far_world :: world where
  "far_world =
     world_of (app_server_session far_lib
       [''HealthAuthority,skt_01,beacon_01,key_01'',
        ''HealthAuthority,skt_03,beacon_02,key_03'',
        ''Smartphone,skt_01,key_019999-12-31 23:59:59.999999'']
       fresh_world)"

text \<open>A phone registered with the empty string as its key.\<close>

definition keyless_world :: world where
  "keyless_world =
     world_of (app_server_session demo_lib [''HealthAuthority,skt_09,beacon_09,''] fresh_world)"

section \<open>Properties\<close>

subsection \<open>Auxiliary facts\<close>

lemma update_execution_log_simps [simp]:
  "app_database (update_execution_log L d w) = app_database w"
  "app_database_file (update_execution_log L d w) = app_database_file w"
  "auth_database (update_execution_log L d w) = auth_database w"
  "auth_database_file (update_execution_log L d w) = auth_database_file w"
  "auth_log (update_execution_log L d w) = auth_log w"
  "auth_log_file (update_execution_log L d w) = auth_log_file w"
  "outbox (update_execution_log L d w) = outbox w"
  "reads (update_execution_log L d w) = Suc (reads w)"
  "execution_log (update_execution_log L d w) =
     execution_log w @ [(strftime L (clock L (reads w)), d)]"
  by (simp_all add: update_execution_log_def utcnow_def)

lemma str_split_not_Nil: "str_split sep s \<noteq> []"
  by (induction s) (auto split: list.splits)

lemma item_Cons_simps [simp]:
  "item (x # xs) 0 = Some x"
  "item (x # xs) (Suc n) = item xs n"
  "item [] n = None"
  by (simp_all add: item_def)

lemma item_Cons_numeral [simp]:
  "item (x # xs) (numeral k) = item xs (pred_numeral k)"
  "item (x # xs) 1 = item xs 0"
  by (simp_all add: item_def numeral_eq_Suc)

lemma headers_differ:
  "health_authority_header \<noteq> smartphone_header"
  "smartphone_header \<noteq> health_authority_header"
  by (simp_all add: health_authority_header_def smartphone_header_def)

text \<open>Unfolding the datetimes the small instance writes, one second at a time.\<close>

lemma replicate_seconds [simp]:
  "replicate (numeral k) c = c # replicate (numeral k - 1) c"
  by (simp add: numeral_eq_Suc)

lemma registered_world_eq:
  "registered_world =
     \<lparr>app_database =
        [(''skt_01'', \<lparr>s_beacon = ''beacon_01'', s_key = ''key_01'', s_datetime = ''s''\<rparr>)],
      app_database_file =
        Some [(''skt_01'',
               \<lparr>s_beacon = ''beacon_01'', s_key = ''key_01'', s_datetime = ''s''\<rparr>)],
      auth_database = [], auth_database_file = None, auth_log = [], auth_log_file = None,
      execution_log = [([], [''New Patient'', ''skt_01'', ''beacon_01'', ''key_01''])],
      outbox = [], reads = 2\<rparr>"
  by (simp add: registered_world_def add_phone_def update_execution_log_def utcnow_def
      Let_def fresh_world_def demo_lib_def)

lemma authority_world_eq:
  "authority_world =
     \<lparr>app_database = [], app_database_file = None,
      auth_database = [(''beacon_01'', ''info_beacon_01'')],
      auth_database_file = Some [(''beacon_01'', ''info_beacon_01'')],
      auth_log = [], auth_log_file = None,
      execution_log = [([], [''New Beacon'', ''beacon_01'', ''info_beacon_01''])],
      outbox = [], reads = 1\<rparr>"
  by (simp add: authority_world_def add_beacon_def update_execution_log_def utcnow_def
      Let_def fresh_world_def demo_lib_def)

subsection \<open>Registration\<close>

text \<open>
  Claim C7. Registering a phone with \<^verbatim>\<open>_add_phone\<close> inserts its record or replaces the one
  it had as a whole, in any world \<open>w\<close>: afterwards the stored beacon and key are those of
  the call and the stored datetime is the clock reading taken inside the call (the
  second of its two readings, the first being the execution log's), the database file
  holds the new database when the call returns, and no other phone's record changes.
  In particular, after two registrations of one phone every field is the second call's.
\<close>

theorem add_phone_overwrites:
  "map_of (app_database (add_phone L id_phone id_beacon key w)) id_phone =
     Some \<lparr>s_beacon = id_beacon, s_key = key,
           s_datetime = strftime L (clock L (Suc (reads w)))\<rparr>
   \<and> reads w < Suc (reads w)
   \<and> Suc (reads w) < reads (add_phone L id_phone id_beacon key w)
   \<and> app_database_file (add_phone L id_phone id_beacon key w) =
       Some (app_database (add_phone L id_phone id_beacon key w))
   \<and> (other \<noteq> id_phone \<longrightarrow>
        map_of (app_database (add_phone L id_phone id_beacon key w)) other =
        map_of (app_database w) other)
   \<and> map_of (app_database
        (add_phone L id_phone id_beacon key
          (add_phone L id_phone first_beacon first_key w))) id_phone =
     Some \<lparr>s_beacon = id_beacon, s_key = key,
           s_datetime = strftime L (clock L (Suc (Suc (Suc (reads w)))))\<rparr>"
  by (simp add: add_phone_def utcnow_def update_conv' Let_def)

theorem add_phone_overwrites_witness:
  "map_of (app_database
      (add_phone demo_lib ''skt_01'' ''beacon_02'' ''key_03'' registered_world)) ''skt_01'' =
     Some \<lparr>s_beacon = ''beacon_02'', s_key = ''key_03'', s_datetime = ''sss''\<rparr>
   \<and> app_database_file
      (add_phone demo_lib ''skt_01'' ''beacon_02'' ''key_03'' registered_world) =
     Some [(''skt_01'',
            \<lparr>s_beacon = ''beacon_02'', s_key = ''key_03'', s_datetime = ''sss''\<rparr>)]
   \<and> ''skt_02'' \<noteq> ''skt_01''
   \<and> map_of (app_database
      (add_phone demo_lib ''skt_01'' ''beacon_02'' ''key_03'' registered_world)) ''skt_02'' =
     map_of (app_database registered_world) ''skt_02''
   \<and> map_of (app_database
      (add_phone demo_lib ''skt_02'' ''beacon_01'' ''key_01'' registered_world)) ''skt_02'' =
     Some \<lparr>s_beacon = ''beacon_01'', s_key = ''key_01'', s_datetime = ''sss''\<rparr>"
  using add_phone_overwrites [where L = demo_lib and id_phone = "''skt_01''"
      and id_beacon = "''beacon_02''" and key = "''key_03''" and w = registered_world
      and other = "''skt_02''"]
    add_phone_overwrites [where L = demo_lib and id_phone = "''skt_02''"
      and id_beacon = "''beacon_01''" and key = "''key_01''" and w = registered_world
      and other = "''skt_01''"]
  by (simp add: registered_world_eq demo_lib_def add_phone_def utcnow_def Let_def)

subsection \<open>Dispatch on the role tag\<close>

lemma app_dispatch_other:
  assumes "str_split separator message = tag # payload"
    and "tag \<noteq> health_authority_header" and "tag \<noteq> smartphone_header"
  shows "app_dispatch L message w = Inr w"
  using assms by (simp add: app_dispatch_def)

lemma app_dispatch_health_authority:
  assumes "str_split separator message = health_authority_header # payload"
  shows "app_dispatch L message w =
     (case payload of
        id_phone # id_beacon # key # extra \<Rightarrow> Inr (add_phone L id_phone id_beacon key w)
      | _ \<Rightarrow> Inl (IndexError, w))"
  using assms by (simp add: app_dispatch_def headers_differ Let_def split: list.splits)

lemma app_dispatch_smartphone:
  assumes "str_split separator message = smartphone_header # payload"
  shows "app_dispatch L message w =
     (case payload of
        id_phone # ciphertext # extra \<Rightarrow> decrypt_token L id_phone ciphertext w
      | _ \<Rightarrow> Inl (IndexError, w))"
  using assms by (simp add: app_dispatch_def headers_differ Let_def split: list.splits)

lemma authority_dispatch_other:
  assumes "str_split separator message = tag # payload" and "tag \<noteq> app_header"
  shows "authority_dispatch L message w = Inr w"
  using assms by (simp add: authority_dispatch_def)

lemma authority_dispatch_app:
  assumes "str_split separator message = app_header # payload"
  shows "authority_dispatch L message w =
     (case payload of id_beacon # extra \<Rightarrow> add_datetime L id_beacon w
      | _ \<Rightarrow> Inl (IndexError, w))"
  using assms by (simp add: authority_dispatch_def Let_def split: list.splits)

text \<open>
  Claim C9, as amended. Let the message split at the separator into a role tag and its
  payload fields. A tag the backend does not recognise (neither \<^verbatim>\<open>HealthAuthority\<close> nor
  \<^verbatim>\<open>Smartphone\<close> for the application backend, not \<^verbatim>\<open>App\<close> for the authority backend)
  runs no handler and returns the world as it was: databases, ledger, files and execution
  log. A recognised tag followed by at least the fields its handler reads (three, two and
  one) runs exactly that handler on the leading fields, and nothing else.
\<close>

theorem dispatch_by_role_tag:
  assumes "str_split separator message = tag # payload"
  shows "(tag \<noteq> health_authority_header \<and> tag \<noteq> smartphone_header \<longrightarrow>
            app_dispatch L message w = Inr w)
       \<and> (tag = health_authority_header \<and> payload = id_phone # id_beacon # key # extra \<longrightarrow>
            app_dispatch L message w = Inr (add_phone L id_phone id_beacon key w))
       \<and> (tag = smartphone_header \<and> payload = id_phone # ciphertext # extra \<longrightarrow>
            app_dispatch L message w = decrypt_token L id_phone ciphertext w)
       \<and> (tag \<noteq> app_header \<longrightarrow> authority_dispatch L message w = Inr w)
       \<and> (tag = app_header \<and> payload = id_beacon # extra \<longrightarrow>
            authority_dispatch L message w = add_datetime L id_beacon w)"
proof (intro conjI impI)
  assume "tag \<noteq> health_authority_header \<and> tag \<noteq> smartphone_header"
  then show "app_dispatch L message w = Inr w"
    using assms by (simp add: app_dispatch_other)
next
  assume "tag = health_authority_header \<and> payload = id_phone # id_beacon # key # extra"
  then show "app_dispatch L message w = Inr (add_phone L id_phone id_beacon key w)"
    using assms by (simp add: app_dispatch_health_authority)
next
  assume "tag = smartphone_header \<and> payload = id_phone # ciphertext # extra"
  then show "app_dispatch L message w = decrypt_token L id_phone ciphertext w"
    using assms by (simp add: app_dispatch_smartphone)
next
  assume "tag \<noteq> app_header"
  then show "authority_dispatch L message w = Inr w"
    using assms by (simp add: authority_dispatch_other)
next
  assume "tag = app_header \<and> payload = id_beacon # extra"
  then show "authority_dispatch L message w = add_datetime L id_beacon w"
    using assms by (simp add: authority_dispatch_app)
qed

theorem dispatch_by_role_tag_witness:
  "app_dispatch demo_lib ''Beacon,skt_01,token'' fresh_world = Inr fresh_world
   \<and> authority_dispatch demo_lib ''Beacon,skt_01,token'' fresh_world = Inr fresh_world
   \<and> app_dispatch demo_lib ''HealthAuthority,skt_01,beacon_01,key_01'' fresh_world =
       Inr (add_phone demo_lib ''skt_01'' ''beacon_01'' ''key_01'' fresh_world)
   \<and> app_dispatch demo_lib ''Smartphone,skt_01,token'' fresh_world =
       decrypt_token demo_lib ''skt_01'' ''token'' fresh_world
   \<and> authority_dispatch demo_lib ''App,beacon_01'' fresh_world =
       add_datetime demo_lib ''beacon_01'' fresh_world"
  using
    dispatch_by_role_tag [where message = "''Beacon,skt_01,token''" and tag = "''Beacon''"
      and payload = "[''skt_01'', ''token'']" and L = demo_lib and w = fresh_world]
    dispatch_by_role_tag [where message = "''HealthAuthority,skt_01,beacon_01,key_01''"
      and tag = "''HealthAuthority''" and payload = "[''skt_01'', ''beacon_01'', ''key_01'']"
      and L = demo_lib and w = fresh_world and id_phone = "''skt_01''"
      and id_beacon = "''beacon_01''" and key = "''key_01''" and extra = "[]"]
    dispatch_by_role_tag [where message = "''Smartphone,skt_01,token''"
      and tag = "''Smartphone''" and payload = "[''skt_01'', ''token'']"
      and L = demo_lib and w = fresh_world and id_phone = "''skt_01''"
      and ciphertext = "''token''" and extra = "[]"]
    dispatch_by_role_tag [where message = "''App,beacon_01''" and tag = "''App''"
      and payload = "[''beacon_01'']" and L = demo_lib and w = fresh_world
      and id_beacon = "''beacon_01''" and extra = "[]"]
  by (simp add: separator_def health_authority_header_def smartphone_header_def
      app_header_def)

text \<open>
  Claim C9 as it was stated also says that a recognised tag always runs exactly one
  handler. The message \<^verbatim>\<open>HealthAuthority\<close>, with no field after the tag, has a recognised
  tag and runs none: reading \<^verbatim>\<open>data[1]\<close> raises IndexError before \<^verbatim>\<open>_add_phone\<close> is called,
  and the world, whose execution log every handler writes first, is as it was.
\<close>

theorem recognized_tag_without_fields_counterexample:
  "item (str_split separator ''HealthAuthority'') 0 = Some health_authority_header
   \<and> app_dispatch demo_lib ''HealthAuthority'' fresh_world = Inl (IndexError, fresh_world)
   \<and> execution_log fresh_world = []"
  by (simp add: app_dispatch_def separator_def health_authority_header_def fresh_world_def)

text \<open>
  Claim C10. A message of the application backend whose tag is \<^verbatim>\<open>HealthAuthority\<close> with
  fewer than four fields in all, or \<^verbatim>\<open>Smartphone\<close> with fewer than three, is not ignored:
  the dispatch reads a field past the end of the split message, IndexError is raised
  with the world unchanged, and the exception ends the accept loop, so the messages
  that follow are never handled.
\<close>

theorem app_dispatch_short_message:
  assumes "str_split separator message = tag # payload"
  shows "(tag = health_authority_header \<and> length (tag # payload) < 4 \<longrightarrow>
            app_dispatch L message w = Inl (IndexError, w) \<and>
            app_server_session L (message # messages) w = Inl (IndexError, w))
       \<and> (tag = smartphone_header \<and> length (tag # payload) < 3 \<longrightarrow>
            app_dispatch L message w = Inl (IndexError, w) \<and>
            app_server_session L (message # messages) w = Inl (IndexError, w))"
proof (intro conjI impI)
  assume short: "tag = health_authority_header \<and> length (tag # payload) < 4"
  then have "str_split separator message = health_authority_header # payload"
    using assms by simp
  from app_dispatch_health_authority [OF this] short
  show "app_dispatch L message w = Inl (IndexError, w)"
    by (auto split: list.splits)
  then show "app_server_session L (message # messages) w = Inl (IndexError, w)"
    by simp
next
  assume short: "tag = smartphone_header \<and> length (tag # payload) < 3"
  then have "str_split separator message = smartphone_header # payload"
    using assms by simp
  from app_dispatch_smartphone [OF this] short
  show "app_dispatch L message w = Inl (IndexError, w)"
    by (auto split: list.splits)
  then show "app_server_session L (message # messages) w = Inl (IndexError, w)"
    by simp
qed

theorem app_dispatch_short_message_witness:
  "app_server_session demo_lib
     [''HealthAuthority,skt_01,beacon_01'', ''HealthAuthority,skt_01,beacon_01,key_01'']
     fresh_world = Inl (IndexError, fresh_world)
   \<and> app_server_session demo_lib
     [''Smartphone,skt_01'', ''HealthAuthority,skt_01,beacon_01,key_01'']
     fresh_world = Inl (IndexError, fresh_world)"
  using
    app_dispatch_short_message [where message = "''HealthAuthority,skt_01,beacon_01''"
      and tag = "''HealthAuthority''" and payload = "[''skt_01'', ''beacon_01'']"
      and L = demo_lib and w = fresh_world
      and messages = "[''HealthAuthority,skt_01,beacon_01,key_01'']"]
    app_dispatch_short_message [where message = "''Smartphone,skt_01''"
      and tag = "''Smartphone''" and payload = "[''skt_01'']"
      and L = demo_lib and w = fresh_world
      and messages = "[''HealthAuthority,skt_01,beacon_01,key_01'']"]
  by (simp add: separator_def health_authority_header_def smartphone_header_def)

subsection \<open>Tokens\<close>

lemma decrypt_token_record:
  assumes "map_of (app_database w) p = Some sub"
  shows "\<exists>sub'. map_of (app_database (world_of (decrypt_token L q c w))) p = Some sub'
           \<and> s_beacon sub' = s_beacon sub \<and> s_key sub' = s_key sub
           \<and> (s_datetime sub' = s_datetime sub
              \<or> (\<exists>t0 t1. strptime L (s_datetime sub) = Some t0
                    \<and> strptime L (s_datetime sub') = Some t1 \<and> t0 < t1))"
  using assms
  by (auto simp add: decrypt_token_def get_key_def world_of_def Let_def update_conv'
      split: option.splits fernet_outcome.splits)

lemma observe_all_monotone:
  assumes "map_of (app_database w) p = Some sub" and "strptime L (s_datetime sub) = Some t0"
  shows "\<exists>sub' t1. map_of (app_database (observe_all L calls w)) p = Some sub'
           \<and> s_beacon sub' = s_beacon sub \<and> s_key sub' = s_key sub
           \<and> strptime L (s_datetime sub') = Some t1 \<and> t0 \<le> t1"
  using assms
proof (induction calls arbitrary: w sub t0)
  case Nil
  then show ?case by simp
next
  case (Cons call calls)
  obtain q c where call: "call = (q, c)" by (cases call)
  let ?w = "world_of (decrypt_token L q c w)"
  from decrypt_token_record [OF Cons.prems(1), of L q c]
  obtain mid where mid: "map_of (app_database ?w) p = Some mid"
      "s_beacon mid = s_beacon sub" "s_key mid = s_key sub"
    and step: "s_datetime mid = s_datetime sub
      \<or> (\<exists>t0 t1. strptime L (s_datetime sub) = Some t0
            \<and> strptime L (s_datetime mid) = Some t1 \<and> t0 < t1)"
    by blast
  from step Cons.prems(2) obtain tm
    where tm: "strptime L (s_datetime mid) = Some tm" "t0 \<le> tm"
    by auto
  from Cons.IH [OF mid(1) tm(1)] obtain sub' t1
    where "map_of (app_database (observe_all L calls ?w)) p = Some sub'"
      "s_beacon sub' = s_beacon mid" "s_key sub' = s_key mid"
      "strptime L (s_datetime sub') = Some t1" "tm \<le> t1"
    by blast
  with mid tm call show ?case by auto
qed

text \<open>
  Claim C1. Take a registered phone whose stored datetime parses. When the token
  decrypts under the phone's key to a datetime strictly greater than the stored one,
  \<^verbatim>\<open>_decrypt_token\<close> returns normally with the decrypted string stored in the record and
  the database written to its file. When the decrypted datetime is older than or equal
  to the stored one, it returns normally as well, having written only the \<^verbatim>\<open>New Token\<close>
  line of the execution log: database and file are unchanged and nothing is raised.
  After any sequence of calls, for any phones and ciphertexts in any order and with any
  repetitions (rejected tokens, unknown phones and calls that raise included), the phone
  is still registered with the same beacon and key, and its stored datetime parses to a
  value that is at least the one it started with.
\<close>

theorem last_seen_monotone:
  assumes "map_of (app_database w) id_phone = Some sub"
    and "strptime L (s_datetime sub) = Some database_datetime"
  shows "(fernet_decrypt L (s_key sub) ciphertext = Plaintext new_datetime_string
          \<and> strptime L new_datetime_string = Some new_datetime
          \<and> database_datetime < new_datetime \<longrightarrow>
            (\<exists>w'. decrypt_token L id_phone ciphertext w = Inr w'
               \<and> map_of (app_database w') id_phone =
                   Some (sub\<lparr>s_datetime := new_datetime_string\<rparr>)
               \<and> app_database_file w' = Some (app_database w')))
       \<and> (fernet_decrypt L (s_key sub) ciphertext = Plaintext new_datetime_string
          \<and> strptime L new_datetime_string = Some new_datetime
          \<and> new_datetime \<le> database_datetime \<longrightarrow>
            decrypt_token L id_phone ciphertext w =
              Inr (update_execution_log L [''New Token'', id_phone, ciphertext] w)
            \<and> app_database (world_of (decrypt_token L id_phone ciphertext w)) = app_database w
            \<and> app_database_file (world_of (decrypt_token L id_phone ciphertext w)) =
                app_database_file w)
       \<and> (\<exists>sub' later.
             map_of (app_database (observe_all L calls w)) id_phone = Some sub'
             \<and> s_beacon sub' = s_beacon sub \<and> s_key sub' = s_key sub
             \<and> strptime L (s_datetime sub') = Some later
             \<and> database_datetime \<le> later)"
proof (intro conjI impI)
  assume newer: "fernet_decrypt L (s_key sub) ciphertext = Plaintext new_datetime_string
          \<and> strptime L new_datetime_string = Some new_datetime
          \<and> database_datetime < new_datetime"
  with assms show "\<exists>w'. decrypt_token L id_phone ciphertext w = Inr w'
               \<and> map_of (app_database w') id_phone =
                   Some (sub\<lparr>s_datetime := new_datetime_string\<rparr>)
               \<and> app_database_file w' = Some (app_database w')"
    by (simp add: decrypt_token_def get_key_def Let_def update_conv')
next
  assume older: "fernet_decrypt L (s_key sub) ciphertext = Plaintext new_datetime_string
          \<and> strptime L new_datetime_string = Some new_datetime
          \<and> new_datetime \<le> database_datetime"
  with assms show call: "decrypt_token L id_phone ciphertext w =
              Inr (update_execution_log L [''New Token'', id_phone, ciphertext] w)"
    by (simp add: decrypt_token_def get_key_def Let_def)
  then show "app_database (world_of (decrypt_token L id_phone ciphertext w)) = app_database w"
    and "app_database_file (world_of (decrypt_token L id_phone ciphertext w)) =
                app_database_file w"
    by (simp_all add: world_of_def)
next
  show "\<exists>sub' later.
             map_of (app_database (observe_all L calls w)) id_phone = Some sub'
             \<and> s_beacon sub' = s_beacon sub \<and> s_key sub' = s_key sub
             \<and> strptime L (s_datetime sub') = Some later
             \<and> database_datetime \<le> later"
    by (rule observe_all_monotone [OF assms])
qed

theorem last_seen_monotone_witness:
  "map_of (app_database registered_world) ''skt_01'' =
     Some \<lparr>s_beacon = ''beacon_01'', s_key = ''key_01'', s_datetime = ''s''\<rparr>
   \<and> map_of (app_database
        (world_of (decrypt_token demo_lib ''skt_01'' ''key_01sssss'' registered_world)))
        ''skt_01'' =
       Some \<lparr>s_beacon = ''beacon_01'', s_key = ''key_01'', s_datetime = ''sssss''\<rparr>
   \<and> decrypt_token demo_lib ''skt_01'' ''key_01s'' registered_world =
       Inr (update_execution_log demo_lib [''New Token'', ''skt_01'', ''key_01s'']
             registered_world)
   \<and> map_of (app_database
        (observe_all demo_lib
          [(''skt_01'', ''key_01sssss''), (''skt_01'', ''key_01ss''),
           (''skt_01'', ''key_01sssss''), (''skt_01'', ''key_02sssssss''),
           (''skt_01'', ''key_01tomorrow''), (''skt_09'', ''key_01sssssss'')]
          registered_world)) ''skt_01'' =
       Some \<lparr>s_beacon = ''beacon_01'', s_key = ''key_01'', s_datetime = ''sssss''\<rparr>"
proof -
  let ?sub = "\<lparr>s_beacon = ''beacon_01'', s_key = ''key_01'', s_datetime = ''s''\<rparr>"
  let ?calls = "[(''skt_01'', ''key_01sssss''), (''skt_01'', ''key_01ss''),
           (''skt_01'', ''key_01sssss''), (''skt_01'', ''key_02sssssss''),
           (''skt_01'', ''key_01tomorrow''), (''skt_09'', ''key_01sssssss'')]"
  have registered: "map_of (app_database registered_world) ''skt_01'' = Some ?sub"
    by (simp add: registered_world_eq)
  have stored: "strptime demo_lib (s_datetime ?sub) = Some 1000000"
    by (simp add: demo_lib_def)
  have newer: "fernet_decrypt demo_lib (s_key ?sub) ''key_01sssss'' = Plaintext ''sssss''
      \<and> strptime demo_lib ''sssss'' = Some 5000000 \<and> (1000000::int) < 5000000"
    by (simp add: demo_lib_def)
  have equal: "fernet_decrypt demo_lib (s_key ?sub) ''key_01s'' = Plaintext ''s''
      \<and> strptime demo_lib ''s'' = Some 1000000 \<and> (1000000::int) \<le> 1000000"
    by (simp add: demo_lib_def)
  have run: "map_of (app_database (observe_all demo_lib ?calls registered_world)) ''skt_01'' =
       Some \<lparr>s_beacon = ''beacon_01'', s_key = ''key_01'', s_datetime = ''sssss''\<rparr>"
    by (simp add: registered_world_eq decrypt_token_def get_key_def Let_def
        update_execution_log_def utcnow_def demo_lib_def world_of_def)
  from last_seen_monotone [OF registered stored, where ciphertext = "''key_01sssss''"
      and new_datetime_string = "''sssss''" and new_datetime = 5000000 and calls = ?calls]
    last_seen_monotone [OF registered stored, where ciphertext = "''key_01s''"
      and new_datetime_string = "''s''" and new_datetime = 1000000 and calls = "[]"]
    registered newer equal run
  show ?thesis
    by (auto simp add: world_of_def)
qed

text \<open>
  Claim C5 as it was stated covers every registered phone and says that a failure to
  decrypt is always classified as \<^verbatim>\<open>InvalidToken\<close>, logged, and never fatal. \<^verbatim>\<open>_add_phone\<close>
  stores whatever key the registration message carries. For a phone registered with a
  key that the constructor \<^verbatim>\<open>Fernet(key)\<close> rejects, here the empty string, no ciphertext
  decrypts, yet what is raised is ValueError, which \<^verbatim>\<open>except InvalidToken\<close> does not
  catch: no \<^verbatim>\<open>Invalid Token\<close> line is logged and the exception ends the accept loop, so
  the registration that follows is never handled.
\<close>

theorem rejected_key_counterexample:
  "map (\<lambda>(id_phone, sub). (id_phone, s_beacon sub, s_key sub)) (app_database keyless_world) =
     [(''skt_09'', ''beacon_09'', [])]
   \<and> fernet_decrypt demo_lib [] ''token'' = BadKey
   \<and> decrypt_token demo_lib ''skt_09'' ''token'' keyless_world =
       Inl (ValueError,
            update_execution_log demo_lib [''New Token'', ''skt_09'', ''token''] keyless_world)
   \<and> app_server_session demo_lib
        [''Smartphone,skt_09,token'', ''HealthAuthority,skt_01,beacon_01,key_01'']
        keyless_world =
       Inl (ValueError,
            update_execution_log demo_lib [''New Token'', ''skt_09'', ''token''] keyless_world)"
  by (simp add: keyless_world_def demo_lib_def fresh_world_def world_of_def
      app_dispatch_def separator_def health_authority_header_def smartphone_header_def
      add_phone_def decrypt_token_def get_key_def update_execution_log_def utcnow_def Let_def)

text \<open>
  Claim C5, as amended. For a registered phone whose stored key Fernet accepts and a
  ciphertext that fails authentication under that key, so that Fernet raises
  \<^verbatim>\<open>InvalidToken\<close>, \<^verbatim>\<open>_decrypt_token\<close> catches the exception and returns normally: the only
  effect is two lines in the execution log, \<^verbatim>\<open>New Token\<close> and \<^verbatim>\<open>Invalid Token\<close>, and the
  accept loop goes on to the next message. Whenever no plaintext comes out of the
  decryption, whatever the reason, the database, with every stored datetime, its file
  and the alerts sent are unchanged: no datetime is ever stored that was not decrypted.
\<close>

theorem decrypt_token_invalid_token:
  assumes "map_of (app_database w) id_phone = Some sub"
  shows "(fernet_decrypt L (s_key sub) ciphertext = InvalidToken \<longrightarrow>
            decrypt_token L id_phone ciphertext w =
              Inr (update_execution_log L [''Invalid Token'', id_phone, ciphertext]
                    (update_execution_log L [''New Token'', id_phone, ciphertext] w))
            \<and> (str_split separator message =
                  smartphone_header # id_phone # ciphertext # extra \<longrightarrow>
                app_server_session L (message # messages) w =
                app_server_session L messages
                  (update_execution_log L [''Invalid Token'', id_phone, ciphertext]
                    (update_execution_log L [''New Token'', id_phone, ciphertext] w))))
       \<and> ((\<forall>plaintext. fernet_decrypt L (s_key sub) ciphertext \<noteq> Plaintext plaintext) \<longrightarrow>
            app_database (world_of (decrypt_token L id_phone ciphertext w)) = app_database w
            \<and> app_database_file (world_of (decrypt_token L id_phone ciphertext w)) =
                app_database_file w
            \<and> outbox (world_of (decrypt_token L id_phone ciphertext w)) = outbox w)"
proof (intro conjI impI)
  assume rejected: "fernet_decrypt L (s_key sub) ciphertext = InvalidToken"
  with assms show call: "decrypt_token L id_phone ciphertext w =
           Inr (update_execution_log L [''Invalid Token'', id_phone, ciphertext]
                 (update_execution_log L [''New Token'', id_phone, ciphertext] w))"
    by (simp add: decrypt_token_def get_key_def Let_def)
  assume "str_split separator message = smartphone_header # id_phone # ciphertext # extra"
  with call show "app_server_session L (message # messages) w =
      app_server_session L messages
        (update_execution_log L [''Invalid Token'', id_phone, ciphertext]
          (update_execution_log L [''New Token'', id_phone, ciphertext] w))"
    by (simp add: app_dispatch_smartphone)
next
  assume none: "\<forall>plaintext. fernet_decrypt L (s_key sub) ciphertext \<noteq> Plaintext plaintext"
  with assms
  show "app_database (world_of (decrypt_token L id_phone ciphertext w)) = app_database w"
    and "app_database_file (world_of (decrypt_token L id_phone ciphertext w)) =
           app_database_file w"
    and "outbox (world_of (decrypt_token L id_phone ciphertext w)) = outbox w"
    by (simp_all add: decrypt_token_def get_key_def Let_def world_of_def
        split: fernet_outcome.splits)
qed

theorem decrypt_token_invalid_token_witness:
  "fernet_decrypt demo_lib ''key_01'' ''key_02ssss'' = InvalidToken
   \<and> app_database (world_of (decrypt_token demo_lib ''skt_01'' ''key_02ssss'' registered_world)) =
       [(''skt_01'', \<lparr>s_beacon = ''beacon_01'', s_key = ''key_01'', s_datetime = ''s''\<rparr>)]
   \<and> map snd (execution_log
        (world_of (decrypt_token demo_lib ''skt_01'' ''key_02ssss'' registered_world))) =
       [[''New Patient'', ''skt_01'', ''beacon_01'', ''key_01''],
        [''New Token'', ''skt_01'', ''key_02ssss''],
        [''Invalid Token'', ''skt_01'', ''key_02ssss'']]
   \<and> map_of (app_database (world_of (app_server_session demo_lib
        [''Smartphone,skt_01,key_02ssss'', ''Smartphone,skt_01,key_01ssss'']
        registered_world))) ''skt_01'' =
       Some \<lparr>s_beacon = ''beacon_01'', s_key = ''key_01'', s_datetime = ''ssss''\<rparr>"
proof -
  have registered: "map_of (app_database registered_world) ''skt_01'' =
      Some \<lparr>s_beacon = ''beacon_01'', s_key = ''key_01'', s_datetime = ''s''\<rparr>"
    by (simp add: registered_world_eq)
  have rejected: "fernet_decrypt demo_lib
      (s_key \<lparr>s_beacon = ''beacon_01'', s_key = ''key_01'', s_datetime = ''s''\<rparr>)
      ''key_02ssss'' = InvalidToken"
    by (simp add: demo_lib_def)
  have message: "str_split separator ''Smartphone,skt_01,key_02ssss'' =
      smartphone_header # ''skt_01'' # ''key_02ssss'' # []"
    by (simp add: separator_def smartphone_header_def)
  have accepted: "map_of (app_database (world_of (app_server_session demo_lib
        [''Smartphone,skt_01,key_01ssss'']
        (update_execution_log demo_lib [''Invalid Token'', ''skt_01'', ''key_02ssss'']
          (update_execution_log demo_lib [''New Token'', ''skt_01'', ''key_02ssss'']
            registered_world))))) ''skt_01'' =
       Some \<lparr>s_beacon = ''beacon_01'', s_key = ''key_01'', s_datetime = ''ssss''\<rparr>"
    by (simp add: registered_world_eq app_dispatch_def separator_def smartphone_header_def
        health_authority_header_def decrypt_token_def get_key_def Let_def
        update_execution_log_def utcnow_def demo_lib_def world_of_def)
  from decrypt_token_invalid_token [OF registered,
      where L = demo_lib and ciphertext = "''key_02ssss''"
        and message = "''Smartphone,skt_01,key_02ssss''" and extra = "[]"
        and messages = "[''Smartphone,skt_01,key_01ssss'']"]
    message accepted rejected
  show ?thesis
    by (simp add: registered_world_eq world_of_def)
qed

subsection \<open>Stored datetimes stay in the database format\<close>

text \<open>
  That every stored datetime parses holds in every world the server session reaches
  from one where it holds, as long as \<^verbatim>\<open>strptime\<close> reads what \<^verbatim>\<open>strftime\<close> writes:
  \<^verbatim>\<open>_add_phone\<close> stores the output of \<^verbatim>\<open>strftime\<close>, and \<^verbatim>\<open>_decrypt_token\<close> stores a string only
  after parsing it. That a stored datetime plus the tolerance is still a datetime is
  not kept: a token may carry any datetime up to the last one.
\<close>

lemma list_all_update:
  "list_all P al \<Longrightarrow> P (k, v) \<Longrightarrow> list_all P (AList.update k v al)"
  by (induction al) auto

lemma datetimes_parse_add_phone:
  assumes "\<And>t. strptime L (strftime L t) \<noteq> None"
    and "datetimes_parse L (app_database w)"
  shows "datetimes_parse L (app_database (add_phone L id_phone id_beacon key w))"
  using assms
  by (simp add: add_phone_def Let_def utcnow_def datetimes_parse_def list_all_update)

lemma datetimes_parse_decrypt_token:
  assumes "datetimes_parse L (app_database w)"
  shows "datetimes_parse L (app_database (world_of (decrypt_token L id_phone ciphertext w)))"
  using assms
  by (auto simp add: decrypt_token_def get_key_def Let_def world_of_def datetimes_parse_def
      list_all_update split: option.splits fernet_outcome.splits)

lemma datetimes_parse_app_dispatch:
  assumes "\<And>t. strptime L (strftime L t) \<noteq> None"
    and "datetimes_parse L (app_database w)"
  shows "datetimes_parse L (app_database (world_of (app_dispatch L message w)))"
proof -
  obtain tag payload where split: "str_split separator message = tag # payload"
    using str_split_not_Nil [of separator message] by (cases "str_split separator message") auto
  show ?thesis
  proof (cases "tag = health_authority_header")
    case True
    with split assms show ?thesis
      by (auto simp add: app_dispatch_health_authority world_of_def
          datetimes_parse_add_phone split: list.splits)
  next
    case False
    show ?thesis
    proof (cases "tag = smartphone_header")
      case True
      with split assms(2) datetimes_parse_decrypt_token [OF assms(2)] show ?thesis
        by (auto simp add: app_dispatch_smartphone world_of_def split: list.splits)
    next
      case no: False
      with False split assms(2) show ?thesis
        by (simp add: app_dispatch_other world_of_def)
    qed
  qed
qed

lemma datetimes_parse_app_server_session:
  assumes "\<And>t. strptime L (strftime L t) \<noteq> None"
    and "datetimes_parse L (app_database w)"
  shows "datetimes_parse L (app_database (world_of (app_server_session L messages w)))"
  using assms(2)
proof (induction messages arbitrary: w)
  case Nil
  then show ?case by (simp add: world_of_def)
next
  case (Cons message messages)
  from datetimes_parse_app_dispatch [OF assms(1) Cons.prems, of message]
  have step: "datetimes_parse L (app_database (world_of (app_dispatch L message w)))" .
  show ?case
  proof (cases "app_dispatch L message w")
    case (Inl raised)
    with step show ?thesis by simp
  next
    case (Inr w1)
    with step have "datetimes_parse L (app_database w1)"
      by (simp add: world_of_def)
    from Cons.IH [OF this] Inr show ?thesis by simp
  qed
qed

subsection \<open>The detection tick\<close>

lemma control_loop_append:
  "control_loop L td (entries @ later) w =
     (case control_loop L td entries w of
        Inl raised \<Rightarrow> Inl raised
      | Inr w1 \<Rightarrow> control_loop L td later w1)"
proof (induction entries arbitrary: w)
  case Nil
  show ?case by simp
next
  case (Cons entry entries)
  obtain p sub where "entry = (p, sub)" by (cases entry)
  with Cons.IH show ?case
    by (simp add: Let_def utcnow_def split: sum.splits)
qed

lemma expire_dt_Inr:
  assumes "expire_dt L td sub = Inr expire"
  shows "\<exists>seen. strptime L (s_datetime sub) = Some seen \<and> expire = seen + td * 1000000"
  using assms
  by (auto simp add: expire_dt_def timedelta_seconds_def datetime_add_def
      split: option.splits if_splits)

text \<open>Whether the loop returns or raises, it only adds alerts and clock readings.\<close>

lemma control_loop_frame:
  "prefix (outbox w) (outbox (world_of (control_loop L td entries w)))
   \<and> reads w \<le> reads (world_of (control_loop L td entries w))
   \<and> app_database (world_of (control_loop L td entries w)) = app_database w
   \<and> app_database_file (world_of (control_loop L td entries w)) = app_database_file w"
proof (induction entries arbitrary: w)
  case Nil
  show ?case by (simp add: world_of_def)
next
  case (Cons entry entries)
  obtain p sub where entry: "entry = (p, sub)" by (cases entry)
  show ?case
  proof (cases "expire_dt L td sub")
    case (Inl raised)
    with entry show ?thesis by (simp add: world_of_def)
  next
    case (Inr expire)
    let ?w1 = "w\<lparr>reads := Suc (reads w)\<rparr>"
    let ?w2 = "client_session (str_join separator [app_header, s_beacon sub])
                 (update_execution_log L [app_header, s_beacon sub] ?w1)"
    show ?thesis
    proof (cases "clock L (reads w) > expire")
      case True
      with Inr entry have "control_loop L td (entry # entries) w = control_loop L td entries ?w2"
        by (simp add: Let_def utcnow_def)
      with Cons.IH [of ?w2] show ?thesis
        by (auto simp add: client_session_def dest: append_prefixD)
    next
      case False
      with Inr entry have "control_loop L td (entry # entries) w = control_loop L td entries ?w1"
        by (simp add: Let_def utcnow_def)
      with Cons.IH [of ?w1] show ?thesis
        by auto
    qed
  qed
qed

lemma control_loop_returns:
  assumes "expiries_in_range L td entries"
  shows "\<exists>w'. control_loop L td entries w = Inr w'"
  using assms
proof (induction entries arbitrary: w)
  case Nil
  show ?case by simp
next
  case (Cons entry entries)
  obtain p sub where entry: "entry = (p, sub)" by (cases entry)
  from Cons.prems entry obtain expire
    where expire: "expire_dt L td sub = Inr expire" and rest: "expiries_in_range L td entries"
    by (auto simp add: expiries_in_range_def split: sum.splits)
  from Cons.IH [OF rest] expire entry show ?case
    by (simp add: Let_def utcnow_def)
qed

lemma control_loop_single:
  assumes "expire_dt L td sub = Inr expire"
  shows "\<exists>w2. control_loop L td [(p, sub)] w = Inr w2 \<and> reads w < reads w2
           \<and> outbox w2 = outbox w @
                (if clock L (reads w) > expire
                 then [str_join separator [app_header, s_beacon sub]] else [])"
  using assms by (auto simp add: Let_def utcnow_def client_session_def)

text \<open>
  Claim C3 as it was stated has every stale subject of the registry alerted at every tick.
  A subject whose stored datetime plus the tolerance is past the last datetime ends the
  tick with OverflowError before the subjects after it are looked at. Here the first
  phone has relayed a token carrying 9999-12-31 23:59:59.999999; the second phone, last
  seen at second 3, is stale by more than the tolerance of one second at the tick's
  first clock reading, second 5, and at every later one, and no alert is written for it.
\<close>

theorem stale_subject_not_alerted_counterexample:
  "map (\<lambda>(id_phone, sub). (id_phone, s_beacon sub, s_datetime sub)) (app_database far_world) =
     [(''skt_01'', ''beacon_01'', ''9999-12-31 23:59:59.999999''),
      (''skt_03'', ''beacon_02'', ''sss'')]
   \<and> strptime far_lib ''sss'' = Some 3000000
   \<and> clock far_lib (reads far_world) = 5000000
   \<and> 5000000 - 3000000 > (1::int) * 1000000
   \<and> outbox far_world = []
   \<and> control_routine far_lib 1 far_world = Inl (OverflowError, far_world)"
  by (simp add: far_world_def far_lib_def demo_lib_def fresh_world_def world_of_def
      app_dispatch_def separator_def health_authority_header_def smartphone_header_def
      add_phone_def decrypt_token_def get_key_def update_execution_log_def utcnow_def Let_def
      update_conv' control_routine_def expire_dt_def timedelta_seconds_def datetime_add_def
      datetime_max_def)

text \<open>
  Claim C3, as amended. Take any subject of the registry such that, for it and for every
  subject before it, the stored datetime parses and the stored datetime plus the
  tolerance is a datetime. One call of \<^verbatim>\<open>control_routine\<close> reaches the subject; there it
  takes one clock reading \<open>now\<close> (the reading numbered \<open>reads w1\<close>, taken during this
  tick) and writes one alert \<^verbatim>\<open>App,id_beacon\<close> with the subject's beacon to the authority
  exactly when \<open>now - lastSeen > td_expire\<close> seconds, strictly, and nothing otherwise.
  Alerts already written stay, whatever happens at the subjects after it; when their
  expiry datetimes exist as well, the tick returns normally. The decision reads the
  subject's stored datetime and the clock only, and the tick leaves the registry and
  its file as they were: no tick remembers an earlier one, so a subject is alerted again
  at every tick that finds it stale, and is not alerted by a tick that finds its stored
  datetime refreshed.
\<close>

theorem control_routine_alert_iff_stale:
  assumes "expiries_in_range L td_expire (earlier @ [(id_phone, sub)])"
    and "app_database w = earlier @ (id_phone, sub) # later"
  shows "\<exists>seen w1 w2.
           strptime L (s_datetime sub) = Some seen
         \<and> control_loop L td_expire earlier w = Inr w1
         \<and> control_loop L td_expire [(id_phone, sub)] w1 = Inr w2
         \<and> outbox w2 = outbox w1 @
              (if clock L (reads w1) - seen > td_expire * 1000000
               then [str_join separator [app_header, s_beacon sub]] else [])
         \<and> control_routine L td_expire w = control_loop L td_expire later w2
         \<and> prefix (outbox w) (outbox w1)
         \<and> prefix (outbox w2) (outbox (world_of (control_routine L td_expire w)))
         \<and> reads w \<le> reads w1 \<and> reads w1 < reads w2
         \<and> reads w2 \<le> reads (world_of (control_routine L td_expire w))
         \<and> app_database (world_of (control_routine L td_expire w)) = app_database w
         \<and> app_database_file (world_of (control_routine L td_expire w)) =
             app_database_file w
         \<and> (expiries_in_range L td_expire later \<longrightarrow>
              (\<exists>w'. control_routine L td_expire w = Inr w'))"
proof -
  from assms(1) have before: "expiries_in_range L td_expire earlier"
    and here: "expiries_in_range L td_expire [(id_phone, sub)]"
    by (simp_all add: expiries_in_range_def)
  from here obtain expire where expire: "expire_dt L td_expire sub = Inr expire"
    by (auto simp add: expiries_in_range_def split: sum.splits)
  from expire_dt_Inr [OF expire] obtain seen
    where seen: "strptime L (s_datetime sub) = Some seen"
      and sum: "expire = seen + td_expire * 1000000"
    by blast
  from control_loop_returns [OF before, of w] obtain w1
    where w1: "control_loop L td_expire earlier w = Inr w1"
    by blast
  from control_loop_frame [of w L td_expire earlier] w1
  have frame1: "prefix (outbox w) (outbox w1)" "reads w \<le> reads w1"
      "app_database w1 = app_database w" "app_database_file w1 = app_database_file w"
    by (simp_all add: world_of_def)
  from control_loop_single [OF expire, of id_phone w1] obtain w2
    where w2: "control_loop L td_expire [(id_phone, sub)] w1 = Inr w2" "reads w1 < reads w2"
      "outbox w2 = outbox w1 @
              (if clock L (reads w1) > expire
               then [str_join separator [app_header, s_beacon sub]] else [])"
    by blast
  have strict: "(clock L (reads w1) > expire) =
      (clock L (reads w1) - seen > td_expire * 1000000)"
    using sum by auto
  from control_loop_frame [of w1 L td_expire "[(id_phone, sub)]"] w2(1)
  have frame2: "app_database w2 = app_database w1"
      "app_database_file w2 = app_database_file w1"
    by (simp_all add: world_of_def)
  have "control_loop L td_expire (earlier @ [(id_phone, sub)] @ later) w =
      control_loop L td_expire later w2"
    using w1 w2(1) by (simp only: control_loop_append sum.case)
  then have whole: "control_routine L td_expire w = control_loop L td_expire later w2"
    using assms(2) by (simp add: control_routine_def)
  from control_loop_frame [of w2 L td_expire later] whole
  have frame3: "prefix (outbox w2) (outbox (world_of (control_routine L td_expire w)))"
      "reads w2 \<le> reads (world_of (control_routine L td_expire w))"
      "app_database (world_of (control_routine L td_expire w)) = app_database w2"
      "app_database_file (world_of (control_routine L td_expire w)) = app_database_file w2"
    by simp_all
  have returns: "expiries_in_range L td_expire later \<longrightarrow>
      (\<exists>w'. control_routine L td_expire w = Inr w')"
    using control_loop_returns [of L td_expire later w2] whole by simp
  from seen w1 w2 strict whole frame1 frame2 frame3 returns show ?thesis
    by (intro exI [of _ seen] exI [of _ w1] exI [of _ w2]) simp
qed

theorem control_routine_alert_iff_stale_witness:
  "expiries_in_range demo_lib 3 (app_database watched_world)
   \<and> (\<exists>w'. control_routine demo_lib 3 watched_world = Inr w')
   \<and> app_database (world_of (control_routine demo_lib 3 watched_world)) =
       app_database watched_world
   \<and> outbox (world_of (control_routine demo_lib 3 watched_world)) = [''App,beacon_01'']
   \<and> outbox (world_of (control_routine demo_lib 3
        (world_of (control_routine demo_lib 3 watched_world)))) =
       [''App,beacon_01'', ''App,beacon_01'', ''App,beacon_02'']
   \<and> outbox (world_of (control_routine demo_lib 3
        (world_of (decrypt_token demo_lib ''skt_01'' ''key_01sssssss''
          (world_of (control_routine demo_lib 3 watched_world)))))) =
       [''App,beacon_01'', ''App,beacon_02'']"
proof -
  have range: "expiries_in_range demo_lib 3 (app_database watched_world)"
    by (simp add: expiries_in_range_def watched_world_def demo_lib_def expire_dt_def
        timedelta_seconds_def datetime_add_def datetime_max_def)
  then have reached: "expiries_in_range demo_lib 3
      ([(''skt_01'', \<lparr>s_beacon = ''beacon_01'', s_key = ''key_01'', s_datetime = ''s''\<rparr>)]
       @ [(''skt_03'',
           \<lparr>s_beacon = ''beacon_02'', s_key = ''key_03'', s_datetime = ''ssss''\<rparr>)])"
    by (simp add: watched_world_def)
  have position: "app_database watched_world =
      [(''skt_01'', \<lparr>s_beacon = ''beacon_01'', s_key = ''key_01'', s_datetime = ''s''\<rparr>)]
      @ (''skt_03'', \<lparr>s_beacon = ''beacon_02'', s_key = ''key_03'', s_datetime = ''ssss''\<rparr>)
      # []"
    by (simp add: watched_world_def)
  have nothing_after: "expiries_in_range demo_lib 3 []"
    by (simp add: expiries_in_range_def)
  from control_routine_alert_iff_stale [OF reached position] nothing_after
  have returns: "(\<exists>w'. control_routine demo_lib 3 watched_world = Inr w')
      \<and> app_database (world_of (control_routine demo_lib 3 watched_world)) =
          app_database watched_world"
    by blast
  have first: "control_routine demo_lib 3 watched_world =
      Inr (watched_world
            \<lparr>execution_log := [(''ssssss'', [''App'', ''beacon_01''])],
             outbox := [''App,beacon_01''], reads := 8\<rparr>)"
    by (simp add: control_routine_def watched_world_def demo_lib_def Let_def utcnow_def
        update_execution_log_def client_session_def app_header_def separator_def
        expire_dt_def timedelta_seconds_def datetime_add_def datetime_max_def)
  have second: "outbox (world_of (control_routine demo_lib 3
        (watched_world
            \<lparr>execution_log := [(''ssssss'', [''App'', ''beacon_01''])],
             outbox := [''App,beacon_01''], reads := 8\<rparr>))) =
       [''App,beacon_01'', ''App,beacon_01'', ''App,beacon_02'']"
    by (simp add: control_routine_def watched_world_def demo_lib_def Let_def utcnow_def
        update_execution_log_def client_session_def app_header_def separator_def world_of_def
        expire_dt_def timedelta_seconds_def datetime_add_def datetime_max_def)
  have refreshed: "outbox (world_of (control_routine demo_lib 3
        (world_of (decrypt_token demo_lib ''skt_01'' ''key_01sssssss''
          (watched_world
            \<lparr>execution_log := [(''ssssss'', [''App'', ''beacon_01''])],
             outbox := [''App,beacon_01''], reads := 8\<rparr>))))) =
       [''App,beacon_01'', ''App,beacon_02'']"
    by (simp add: control_routine_def watched_world_def demo_lib_def Let_def utcnow_def
        update_execution_log_def client_session_def app_header_def separator_def world_of_def
        decrypt_token_def get_key_def
        expire_dt_def timedelta_seconds_def datetime_add_def datetime_max_def)
  from range returns first second refreshed show ?thesis
    by (simp add: world_of_def)
qed

subsection \<open>Violations reported to the authority\<close>

lemma add_datetime_KeyError:
  "map_of (auth_database w) id_beacon = None \<Longrightarrow>
   add_datetime L id_beacon w = Inl (KeyError, w)"
  by (simp add: add_datetime_def)

text \<open>
  Claim C4, where the code departs from it. For a beacon that is not in the authority's
  database, \<^verbatim>\<open>_add_datetime\<close> raises KeyError in its first statement, which reads
  \<^verbatim>\<open>self._database[id_beacon]\<close> before the membership test: nothing is appended to the
  ledger and no state changes, but nothing is logged either (the branch that logs
  \<^verbatim>\<open>Invalid Beacon\<close> is never reached), and the exception leaves \<^verbatim>\<open>server_session\<close>, whose
  accept loop ends there.
\<close>

theorem add_datetime_unknown_beacon:
  assumes "map_of (auth_database w) id_beacon = None"
  shows "add_datetime L id_beacon w = Inl (KeyError, w)
       \<and> (str_split separator message = app_header # id_beacon # extra \<longrightarrow>
            authority_server_session L (message # messages) w = Inl (KeyError, w))"
  using assms by (simp add: add_datetime_KeyError authority_dispatch_app)

theorem add_datetime_unknown_beacon_witness:
  "map_of (auth_database authority_world) ''beacon_99'' = None
   \<and> add_datetime demo_lib ''beacon_99'' authority_world = Inl (KeyError, authority_world)
   \<and> authority_server_session demo_lib [''App,beacon_99'', ''App,beacon_01''] authority_world =
       Inl (KeyError, authority_world)
   \<and> execution_log authority_world = [([], [''New Beacon'', ''beacon_01'', ''info_beacon_01''])]
   \<and> auth_log authority_world = [] \<and> auth_log_file authority_world = None"
proof -
  have absent: "map_of (auth_database authority_world) ''beacon_99'' = None"
    by (simp add: authority_world_def add_beacon_def Let_def fresh_world_def)
  have message: "str_split separator ''App,beacon_99'' = app_header # ''beacon_99'' # []"
    by (simp add: separator_def app_header_def)
  show ?thesis
    using absent add_datetime_unknown_beacon [OF absent, where L = demo_lib
        and message = "''App,beacon_99''" and extra = "[]"
        and messages = "[''App,beacon_01'']"] message
    by (simp add: authority_world_def add_beacon_def Let_def fresh_world_def demo_lib_def
        update_execution_log_def utcnow_def)
qed

lemma violations_add_datetime:
  "violations (world_of (add_datetime L id_beacon w)) other =
     (if other = id_beacon \<and> map_of (auth_database w) id_beacon \<noteq> None
      then violations w other @ [strftime L (clock L (Suc (reads w)))]
      else violations w other)"
  by (auto simp add: add_datetime_def violations_def world_of_def utcnow_def Let_def
      update_conv' split: option.splits)

lemma prefix_violations_add_datetime:
  "prefix (violations w other) (violations (world_of (add_datetime L id_beacon w)) other)"
  by (simp add: violations_add_datetime)

lemma prefix_violations_record_all:
  "prefix (violations w other) (violations (record_all L calls w) other)"
proof (induction calls arbitrary: w)
  case Nil
  show ?case by simp
next
  case (Cons id_beacon calls)
  have "prefix (violations w other)
          (violations (world_of (add_datetime L id_beacon w)) other)"
    by (rule prefix_violations_add_datetime)
  also have "prefix \<dots>
          (violations (record_all L calls (world_of (add_datetime L id_beacon w))) other)"
    by (rule Cons.IH)
  finally show ?case by simp
qed

lemma record_all_append:
  "record_all L (calls @ later) w = record_all L later (record_all L calls w)"
  by (induction calls arbitrary: w) simp_all

text \<open>
  Claim C8. The ledger \<^verbatim>\<open>_log\<close> of the authority only grows at the end of its lists. A
  call of \<^verbatim>\<open>_add_datetime\<close> for a beacon of the authority's database returns normally, and
  afterwards that beacon's list is the list it had (none before its first violation, when
  the list is created with this one entry) followed by one datetime, the clock reading
  taken inside the call; the lists of all other beacons are untouched and the ledger's
  file holds the new ledger. Over any sequence of calls, known beacon or not, the list
  of every beacon at an earlier moment is a prefix of its list at every later moment.
\<close>

theorem ledger_append_only:
  assumes "map_of (auth_database w) id_beacon = Some info"
  shows "(\<exists>w'. add_datetime L id_beacon w = Inr w'
            \<and> map_of (auth_log w') id_beacon =
                Some (violations w id_beacon @ [strftime L (clock L (Suc (reads w)))])
            \<and> auth_log_file w' = Some (auth_log w')
            \<and> (other \<noteq> id_beacon \<longrightarrow> map_of (auth_log w') other = map_of (auth_log w) other))
       \<and> (map_of (auth_log w) id_beacon = None \<longrightarrow>
            violations (world_of (add_datetime L id_beacon w)) id_beacon =
              [strftime L (clock L (Suc (reads w)))])
       \<and> prefix (violations (record_all L calls w) any)
            (violations (record_all L (calls @ later) w) any)"
proof (intro conjI)
  show "\<exists>w'. add_datetime L id_beacon w = Inr w'
            \<and> map_of (auth_log w') id_beacon =
                Some (violations w id_beacon @ [strftime L (clock L (Suc (reads w)))])
            \<and> auth_log_file w' = Some (auth_log w')
            \<and> (other \<noteq> id_beacon \<longrightarrow> map_of (auth_log w') other = map_of (auth_log w) other)"
    using assms
    by (auto simp add: add_datetime_def violations_def utcnow_def Let_def update_conv'
        split: option.splits)
  show "map_of (auth_log w) id_beacon = None \<longrightarrow>
            violations (world_of (add_datetime L id_beacon w)) id_beacon =
              [strftime L (clock L (Suc (reads w)))]"
    using assms by (simp add: violations_add_datetime) (simp add: violations_def)
  show "prefix (violations (record_all L calls w) any)
            (violations (record_all L (calls @ later) w) any)"
    by (simp add: record_all_append prefix_violations_record_all)
qed

theorem ledger_append_only_witness:
  "map_of (auth_database authority_world) ''beacon_01'' = Some ''info_beacon_01''
   \<and> map_of (auth_log authority_world) ''beacon_01'' = None
   \<and> violations (world_of (add_datetime demo_lib ''beacon_01'' authority_world)) ''beacon_01'' =
       [''ss'']
   \<and> ''beacon_02'' \<noteq> ''beacon_01''
   \<and> map_of (auth_log (world_of (add_datetime demo_lib ''beacon_01'' authority_world)))
        ''beacon_02'' = None
   \<and> auth_log_file (world_of (add_datetime demo_lib ''beacon_01'' authority_world)) =
       Some [(''beacon_01'', [''ss''])]
   \<and> violations (record_all demo_lib [''beacon_01''] authority_world) ''beacon_01'' = [''ss'']
   \<and> violations (record_all demo_lib [''beacon_01'', ''beacon_99'', ''beacon_01'']
        authority_world) ''beacon_01'' = [''ss'', ''ssss'']"
proof -
  have known: "map_of (auth_database authority_world) ''beacon_01'' = Some ''info_beacon_01''"
    by (simp add: authority_world_eq)
  have run: "violations (record_all demo_lib [''beacon_01'', ''beacon_99'', ''beacon_01'']
        authority_world) ''beacon_01'' = [''ss'', ''ssss'']"
    by (simp add: authority_world_eq violations_def add_datetime_def world_of_def
        update_execution_log_def utcnow_def Let_def demo_lib_def)
  from ledger_append_only [OF known, where L = demo_lib and other = "''beacon_02''"
      and calls = "[''beacon_01'']" and later = "[''beacon_99'', ''beacon_01'']"
      and any = "''beacon_01''"] known run
  show ?thesis
    by (simp add: authority_world_eq violations_def add_datetime_def world_of_def
        update_execution_log_def utcnow_def Let_def demo_lib_def)
qed

subsection \<open>Transport\<close>

text \<open>
  Claim C6 as it was stated says that the application backend's server session requires
  and validates the certificate of the connecting phone or health authority. It does
  not: \<^verbatim>\<open>AppBackend.server_session\<close> passes neither \<^verbatim>\<open>cert_reqs\<close> nor \<^verbatim>\<open>ca_certs\<close>, so the
  default \<^verbatim>\<open>CERT_NONE\<close> applies, and the clients of \<^verbatim>\<open>client.py\<close> hold no certificate.
\<close>

theorem app_server_not_mutual_counterexample:
  "\<not> mutually_authenticated (app_server_wrap_socket app_paths)
       (client_wrap_socket ''./health/ca_certificate.pem'')"
  by (simp add: mutually_authenticated_def validates_peer_def app_server_wrap_socket_def
      wrap_socket_defaults_def)

text \<open>
  Claim C6, as amended. A connection from a phone or the health authority to the
  application backend authenticates the server only: the server presents its
  certificate, the client requires it and validates it against the certificate it
  imported, the server asks for no client certificate and the client presents none.
  Both sides authenticate each other on the other channel, from the application
  backend's client session to the authority backend's server session.
\<close>

theorem app_server_authenticates_server_only:
  "server_authenticated_only (app_server_wrap_socket self)
     (client_wrap_socket client_ca_certificate_path)
   \<and> cert_reqs (app_server_wrap_socket self) = CERT_NONE
   \<and> certfile (client_wrap_socket client_ca_certificate_path) = None
   \<and> mutually_authenticated (authority_server_wrap_socket authority)
       (app_client_wrap_socket self)"
  by (simp add: server_authenticated_only_def mutually_authenticated_def validates_peer_def
      presents_certificate_def app_server_wrap_socket_def client_wrap_socket_def
      authority_server_wrap_socket_def app_client_wrap_socket_def wrap_socket_defaults_def)

end
